theory Spec2Isabelle
  imports Complex_Main
begin

section \<open>Python strings and the built-ins the code calls\<close>

text \<open>
  A Python \<^verbatim>\<open>str\<close> is a sequence of code points. It is modelled as a \<^typ>\<open>string\<close>
  whose characters are read as the code points U+0000 .. U+00FF, so \<^const>\<open>length\<close> is
  Python's \<^verbatim>\<open>len\<close>. Code points above U+00FF are outside the model. The built-ins
  below follow CPython on that range.
\<close>

text \<open>
  \<^verbatim>\<open>c.isspace()\<close>: the characters that \<^verbatim>\<open>str.strip()\<close> removes. Below U+0100
  these are TAB, LF, VT, FF, CR, FS, GS, RS, US, SPACE, NEL and NBSP.
\<close>

definition isspace :: "char \<Rightarrow> bool" where
  "isspace c \<longleftrightarrow>
     c \<in> set [CHR 0x09, CHR 0x0A, CHR 0x0B, CHR 0x0C, CHR 0x0D,
              CHR 0x1C, CHR 0x1D, CHR 0x1E, CHR 0x1F, CHR 0x20, CHR 0x85, CHR 0xA0]"

definition lstrip :: "string \<Rightarrow> string" where
  "lstrip s = dropWhile isspace s"

definition rstrip :: "string \<Rightarrow> string" where
  "rstrip s = rev (dropWhile isspace (rev s))"

definition strip :: "string \<Rightarrow> string" where
  "strip s = rstrip (lstrip s)"

text \<open>\<^verbatim>\<open>s.rstrip(chars)\<close>: trailing characters that occur in \<^verbatim>\<open>chars\<close> are removed.\<close>

definition rstrip_chars :: "string \<Rightarrow> string \<Rightarrow> string" where
  "rstrip_chars s chars = rev (dropWhile (\<lambda>c. c \<in> set chars) (rev s))"

text \<open>
  \<^verbatim>\<open>s.lower()\<close>, character by character: below U+0100 the upper-case letters are
  A .. Z and U+00C0 .. U+00DE without U+00D7, each 32 below its lower-case letter.
\<close>

definition lower_char :: "char \<Rightarrow> char" where
  "lower_char c =
     (let n = (of_char c :: nat)
      in if (65 \<le> n \<and> n \<le> 90) \<or> (192 \<le> n \<and> n \<le> 214) \<or> (216 \<le> n \<and> n \<le> 222)
         then char_of (n + 32) else c)"

definition lower :: "string \<Rightarrow> string" where
  "lower s = map lower_char s"

definition startswith :: "string \<Rightarrow> string \<Rightarrow> bool" where
  "startswith s p \<longleftrightarrow> take (length p) s = p"

text \<open>
  \<^verbatim>\<open>s.split(sep)\<close> for a non-empty separator: the pieces between the occurrences of
  \<^verbatim>\<open>sep\<close>, found from the left without overlap. (Python raises for an empty
  separator; the code only passes a literal, so that case returns the string whole here.)
\<close>

function split :: "string \<Rightarrow> string \<Rightarrow> string list" where
  "split [] sep = [[]]"
| "split (c # cs) sep =
     (if sep \<noteq> [] \<and> startswith (c # cs) sep
      then [] # split (drop (length sep) (c # cs)) sep
      else (case split cs sep of
              [] \<Rightarrow> [[c]]
            | piece # pieces \<Rightarrow> (c # piece) # pieces))"
  by pat_completeness auto
termination
  by (relation "measure (\<lambda>(s, sep). length s)") (auto simp: startswith_def)

text \<open>\<^verbatim>\<open>xs[i]\<close> for \<^verbatim>\<open>i \<ge> 0\<close>; \<open>None\<close> stands for the \<^verbatim>\<open>IndexError\<close>.\<close>

fun index :: "'a list \<Rightarrow> nat \<Rightarrow> 'a option" where
  "index [] i = None"
| "index (x # xs) 0 = Some x"
| "index (x # xs) (Suc i) = index xs i"

subsection \<open>The built-in \<^verbatim>\<open>int\<close> on a string\<close>

text \<open>
  \<^verbatim>\<open>int(s)\<close> in base 10 accepts: white space, an optional sign, one or more decimal
  digits with single underscores allowed between digits, white space. Anything else raises
  \<^verbatim>\<open>ValueError\<close>, which is \<open>None\<close> here. The white space of the integer parser is
  narrower than that of \<^verbatim>\<open>strip\<close>: it does not contain FS, GS, RS and US. A literal of
  more than \<^verbatim>\<open>sys.get_int_max_str_digits()\<close> digits raises as well; the interpreter's
  default for that limit is 4300.
\<close>

definition int_isspace :: "char \<Rightarrow> bool" where
  "int_isspace c \<longleftrightarrow>
     c \<in> set [CHR 0x09, CHR 0x0A, CHR 0x0B, CHR 0x0C, CHR 0x0D, CHR 0x20, CHR 0x85, CHR 0xA0]"

definition isdecimal :: "char \<Rightarrow> bool" where
  "isdecimal c \<longleftrightarrow> 48 \<le> (of_char c :: nat) \<and> (of_char c :: nat) \<le> 57"

definition digit_value :: "char \<Rightarrow> int" where
  "digit_value c = int (of_char c) - 48"

fun digit_run :: "string \<Rightarrow> int list option" where
  "digit_run [] = None"
| "digit_run [c] = (if isdecimal c then Some [digit_value c] else None)"
| "digit_run (c # d # cs) =
     (if \<not> isdecimal c then None
      else if d = CHR ''_'' then map_option (Cons (digit_value c)) (digit_run cs)
      else map_option (Cons (digit_value c)) (digit_run (d # cs)))"

definition int_max_str_digits :: nat where
  "int_max_str_digits = 4300"

definition py_int :: "string \<Rightarrow> int option" where
  "py_int s =
     (let s1 = dropWhile int_isspace s;
          (negative, s2) =
             (case s1 of
                [] \<Rightarrow> (False, s1)
              | c # cs \<Rightarrow>
                  if c = CHR ''+'' then (False, cs)
                  else if c = CHR ''-'' then (True, cs)
                  else (False, s1));
          s3 = rev (dropWhile int_isspace (rev s2))
      in case digit_run s3 of
           None \<Rightarrow> None
         | Some ds \<Rightarrow>
             if int_max_str_digits < length ds then None
             else let v = foldl (\<lambda>a d. 10 * a + d) 0 ds
                  in Some (if negative then - v else v))"

section \<open>The document model read by the segmenter\<close>

text \<open>
  What the code reads of the document library's objects: of a style its \<^verbatim>\<open>name\<close>
  (which may be \<^verbatim>\<open>None\<close>), of a paragraph its \<^verbatim>\<open>text\<close>, the \<^verbatim>\<open>text\<close> of each of
  its \<^verbatim>\<open>runs\<close> and its \<^verbatim>\<open>style\<close>, of a table the \<^verbatim>\<open>text\<close> of each cell of each
  row. \<^verbatim>\<open>iter_block_items\<close> yields the paragraphs and tables of the body in document
  order; a document is the list of blocks it yields.
\<close>

record style =
  name :: "string option"

record Paragraph =
  "text" :: string
  runs :: "string list"
  style :: "style option"

type_synonym Table = "string list list"

datatype block = ParagraphBlock Paragraph | TableBlock Table

subsection \<open>\<^verbatim>\<open>heading_level\<close>\<close>

definition heading_level :: "Paragraph \<Rightarrow> int option" where
  "heading_level paragraph =
     (case style paragraph of
        None \<Rightarrow> None
      | Some st \<Rightarrow>
          (case name st of
             None \<Rightarrow> None
           | Some nm \<Rightarrow>
               if nm = [] then None
               else let name' = lower (strip nm)
                    in if startswith name' ''heading ''
                       then (case index (split name' ''heading '') 1 of
                               None \<Rightarrow> None
                             | Some piece \<Rightarrow> py_int piece)
                       else None))"

subsection \<open>\<^verbatim>\<open>table_to_matrix\<close>\<close>

definition table_to_matrix :: "Table \<Rightarrow> string list list" where
  "table_to_matrix table = map (\<lambda>row. map strip row) table"

section \<open>The section segmenter\<close>

text \<open>
  A content item is the dictionary the code appends:
  \<^verbatim>\<open>{"type": "paragraph", "text": ..., "style": ...}\<close> or
  \<^verbatim>\<open>{"type": "table", "rows": ...}\<close>.
\<close>

datatype content_item =
    paragraph_item string "string option"
  | table_item "string list list"

record Section =
  title :: string
  level :: int
  content :: "content_item list"

text \<open>
  The loop of \<^verbatim>\<open>parse_docx_sections\<close> works on two variables, the list
  \<^verbatim>\<open>sections\<close> and the section \<^verbatim>\<open>current\<close>. A section object is appended to
  \<^verbatim>\<open>sections\<close> only by \<^verbatim>\<open>push_current_if_has_content\<close>, and each call of it is
  followed at once by the assignment of a fresh object to \<^verbatim>\<open>current\<close> or by the
  end of the loop, so no appended section is changed afterwards and the two variables can
  be passed as values.
\<close>

record parser_state =
  sections :: "Section list"
  current :: Section

definition push_current_if_has_content :: "parser_state \<Rightarrow> parser_state" where
  "push_current_if_has_content st =
     (if title (current st) \<noteq> ''(preamble)'' \<or> content (current st) \<noteq> []
      then st\<lparr>sections := sections st @ [current st]\<rparr>
      else st)"

text \<open>
  Lines 99 and 100: the text of a paragraph, either its merged text or the texts of its
  runs joined, without trailing newlines.
\<close>

definition paragraph_text :: "bool \<Rightarrow> Paragraph \<Rightarrow> string" where
  "paragraph_text merge_paragraph_runs blk =
     rstrip_chars (if merge_paragraph_runs then text blk else concat (runs blk)) [CHR 0x0A]"

text \<open>Line 116: \<^verbatim>\<open>block.style.name if block.style else None\<close>.\<close>

definition style_name :: "Paragraph \<Rightarrow> string option" where
  "style_name blk = (case style blk of None \<Rightarrow> None | Some st \<Rightarrow> name st)"

text \<open>\<^verbatim>\<open>current.content.append(item)\<close>.\<close>

definition append_content :: "content_item \<Rightarrow> parser_state \<Rightarrow> parser_state" where
  "append_content item st =
     st\<lparr>current := (current st)\<lparr>content := content (current st) @ [item]\<rparr>\<rparr>"

text \<open>
  One iteration of the \<^verbatim>\<open>for\<close> loop. The three flags are the keyword arguments
  \<^verbatim>\<open>include_tables\<close>, \<^verbatim>\<open>include_empty_paragraphs\<close> and \<^verbatim>\<open>merge_paragraph_runs\<close>.
\<close>

fun loop_body :: "bool \<Rightarrow> bool \<Rightarrow> bool \<Rightarrow> parser_state \<Rightarrow> block \<Rightarrow> parser_state" where
  "loop_body include_tables include_empty_paragraphs merge_paragraph_runs st (ParagraphBlock blk) =
     (let txt = paragraph_text merge_paragraph_runs blk
      in case heading_level blk of
           Some lvl \<Rightarrow>
             (push_current_if_has_content st)
               \<lparr>current := \<lparr>title = strip txt, level = lvl, content = []\<rparr>\<rparr>
         | None \<Rightarrow>
             if \<not> include_empty_paragraphs \<and> strip txt = [] then st
             else append_content (paragraph_item (strip txt) (style_name blk)) st)"
| "loop_body include_tables include_empty_paragraphs merge_paragraph_runs st (TableBlock tbl) =
     (if include_tables then append_content (table_item (table_to_matrix tbl)) st else st)"

fun loop :: "bool \<Rightarrow> bool \<Rightarrow> bool \<Rightarrow> parser_state \<Rightarrow> block list \<Rightarrow> parser_state" where
  "loop it ie mr st [] = st"
| "loop it ie mr st (b # bs) = loop it ie mr (loop_body it ie mr st b) bs"

text \<open>
  \<^verbatim>\<open>parse_docx_sections\<close>. Its first argument here is the list of blocks that
  \<^verbatim>\<open>iter_block_items(Document(path))\<close> yields; opening the file is left to the caller
  of the model. The sections are returned as records, which \<^verbatim>\<open>to_dict\<close> turns into
  dictionaries with the same three entries.
\<close>

definition parse_docx_sections :: "block list \<Rightarrow> bool \<Rightarrow> bool \<Rightarrow> bool \<Rightarrow> Section list" where
  "parse_docx_sections doc include_tables include_empty_paragraphs merge_paragraph_runs =
     sections
       (push_current_if_has_content
          (loop include_tables include_empty_paragraphs merge_paragraph_runs
             \<lparr>sections = [], current = \<lparr>title = ''(preamble)'', level = 0, content = []\<rparr>\<rparr>
             doc))"

section \<open>The command-line entry point\<close>

text \<open>
  The block under \<^verbatim>\<open>if __name__ == "__main__"\<close>. The two library calls are
  parameters: \<open>Document\<close> opens a path and gives the document's blocks or fails with an
  exception of the library (which nothing catches), \<open>json_dumps\<close> is
  \<^verbatim>\<open>json.dumps(_, ensure_ascii=False, indent=2)\<close>. A run is what was printed, one entry
  for each call of \<^verbatim>\<open>print\<close>, and how the script ended.
\<close>

datatype 'e ending = Returned | SystemExit int | Uncaught 'e

record 'e run =
  stdout :: "string list"
  ending :: "'e ending"

definition main ::
  "(string \<Rightarrow> 'e + block list) \<Rightarrow> (Section list \<Rightarrow> string) \<Rightarrow> string list \<Rightarrow> 'e run" where
  "main Document json_dumps argv =
     (if length argv < 2
      then \<lparr>stdout = [''Usage: python docx_sections.py <file.docx>''], ending = SystemExit 2\<rparr>
      else (case Document (argv ! 1) of
              Inl e \<Rightarrow> \<lparr>stdout = [], ending = Uncaught e\<rparr>
            | Inr doc \<Rightarrow>
                \<lparr>stdout = [json_dumps (parse_docx_sections doc True False True)],
                 ending = Returned\<rparr>))"

section \<open>The scanned-PDF detector\<close>

text \<open>
  Of a page the code reads \<^verbatim>\<open>page.get_text("text")\<close> and
  \<^verbatim>\<open>page.get_images(full=True)\<close>; a document is the list of its pages. The loop keeps
  the two variables \<^verbatim>\<open>total_text_chars\<close> and \<^verbatim>\<open>has_images\<close>.
\<close>

record 'img Page =
  get_text :: string
  get_images :: "'img list"

fun scan_pages :: "int \<times> bool \<Rightarrow> 'img Page list \<Rightarrow> int \<times> bool" where
  "scan_pages (total_text_chars, has_images) [] = (total_text_chars, has_images)"
| "scan_pages (total_text_chars, has_images) (page # pages) =
     scan_pages
       (total_text_chars + int (length (strip (get_text page))),
        (if \<not> has_images then (if get_images page \<noteq> [] then True else has_images)
         else has_images))
       pages"

definition is_pdf_scanned :: "'img Page list \<Rightarrow> int \<Rightarrow> bool \<Rightarrow> bool" where
  "is_pdf_scanned doc min_text_chars require_images =
     (case scan_pages (0, False) doc of
        (total_text_chars, has_images) \<Rightarrow>
          if total_text_chars \<ge> min_text_chars then False
          else if require_images then has_images
          else True)"

section \<open>The scanned-table detector\<close>

text \<open>
  The function opens the file, takes the text of the clipped region
  (\<open>pdf_text\<close>) and the text the OCR engine reads off the rendered region
  (\<open>ocr_text\<close>); these two strings are the inputs here, with the page number, the box and
  the two thresholds. Python's floats are modelled as real numbers: rounding, infinities
  and NaN are not represented. A division by a zero float raises
  \<^verbatim>\<open>ZeroDivisionError\<close>.
\<close>

datatype py_error = ZeroDivisionError

record OCRTableScanResult =
  page_number :: int
  bbox :: "real \<times> real \<times> real \<times> real"
  pdf_text_chars :: int
  ocr_text_chars :: int
  scanned :: bool
  confidence :: real

definition truediv :: "real \<Rightarrow> real \<Rightarrow> py_error + real" where
  "truediv a b = (if b = 0 then Inl ZeroDivisionError else Inr (a / b))"

text \<open>Line 51: \<^verbatim>\<open>ratio = (ocr_chars / max(1, pdf_chars))\<close>.\<close>

definition ratio :: "int \<Rightarrow> int \<Rightarrow> py_error + real" where
  "ratio ocr_chars pdf_chars = truediv (real_of_int ocr_chars) (real_of_int (max 1 pdf_chars))"

definition detect_scanned_table_by_ocr ::
  "int \<Rightarrow> real \<times> real \<times> real \<times> real \<Rightarrow> string \<Rightarrow> string \<Rightarrow> real \<Rightarrow> int
     \<Rightarrow> py_error + OCRTableScanResult" where
  "detect_scanned_table_by_ocr page_no box pdf_text ocr_text ocr_min_ratio min_ocr_chars =
     (let pdf_chars = int (length (strip pdf_text));
          ocr_chars = int (length (strip ocr_text))
      in case ratio ocr_chars pdf_chars of
           Inl e \<Rightarrow> Inl e
         | Inr r \<Rightarrow>
             (let is_scanned = (ocr_chars \<ge> min_ocr_chars \<and> r \<ge> ocr_min_ratio)
              in case truediv r (ocr_min_ratio * 2) of
                   Inl e \<Rightarrow> Inl e
                 | Inr q \<Rightarrow>
                     Inr \<lparr>page_number = page_no, bbox = box,
                          pdf_text_chars = pdf_chars, ocr_text_chars = ocr_chars,
                          scanned = is_scanned, confidence = min 1 q\<rparr>))"

section \<open>Notions of the specification\<close>

text \<open>A block is heading-styled when \<^const>\<open>heading_level\<close> resolves a level for it.\<close>

fun is_heading :: "block \<Rightarrow> bool" where
  "is_heading (ParagraphBlock p) = (heading_level p \<noteq> None)"
| "is_heading (TableBlock t) = False"

text \<open>
  The serialised form of a non-heading block that survives the filters: a table is dropped
  when \<open>include_tables\<close> is false, a paragraph whose trimmed text is empty is dropped
  when \<open>include_empty_paragraphs\<close> is false. A heading has no such form.
\<close>

fun surviving :: "bool \<Rightarrow> bool \<Rightarrow> bool \<Rightarrow> block \<Rightarrow> content_item list" where
  "surviving include_tables include_empty_paragraphs merge_paragraph_runs (ParagraphBlock p) =
     (if heading_level p \<noteq> None then []
      else if strip (paragraph_text merge_paragraph_runs p) = [] \<and> \<not> include_empty_paragraphs
      then []
      else [paragraph_item (strip (paragraph_text merge_paragraph_runs p)) (style_name p)])"
| "surviving include_tables include_empty_paragraphs merge_paragraph_runs (TableBlock t) =
     (if include_tables then [table_item (table_to_matrix t)] else [])"

definition filtered_blocks :: "bool \<Rightarrow> bool \<Rightarrow> bool \<Rightarrow> block list \<Rightarrow> content_item list" where
  "filtered_blocks include_tables include_empty_paragraphs merge_paragraph_runs doc =
     concat (map (surviving include_tables include_empty_paragraphs merge_paragraph_runs) doc)"

text \<open>The level a block resolves to, if it is heading-styled.\<close>

fun block_level :: "block \<Rightarrow> int option" where
  "block_level (ParagraphBlock p) = heading_level p"
| "block_level (TableBlock t) = None"

text \<open>The blocks that precede the first heading-styled paragraph.\<close>

definition before_first_heading :: "block list \<Rightarrow> block list" where
  "before_first_heading doc = takeWhile (\<lambda>b. \<not> is_heading b) doc"

text \<open>The output begins with a section of level 0 titled \<^verbatim>\<open>(preamble)\<close>.\<close>

fun starts_with_preamble :: "Section list \<Rightarrow> bool" where
  "starts_with_preamble [] = False"
| "starts_with_preamble (s # ss) = (level s = 0 \<and> title s = ''(preamble)'')"

text \<open>The total of the stripped text lengths of the pages, and whether any page has an image.\<close>

definition total_text_length :: "'img Page list \<Rightarrow> int" where
  "total_text_length doc = sum_list (map (\<lambda>page. int (length (strip (get_text page)))) doc)"

definition any_page_has_image :: "'img Page list \<Rightarrow> bool" where
  "any_page_has_image doc = list_ex (\<lambda>page. get_images page \<noteq> []) doc"

section \<open>Properties of the segmenter's loop\<close>

lemma sections_push:
  "concat (map content (sections (push_current_if_has_content st))) =
   concat (map content (sections st)) @ content (current st)"
  by (simp add: push_current_if_has_content_def)

lemma current_push [simp]: "current (push_current_if_has_content st) = current st"
  by (simp add: push_current_if_has_content_def)

lemma sections_push_cases:
  "sections (push_current_if_has_content st) = sections st \<or>
   sections (push_current_if_has_content st) = sections st @ [current st]"
  by (simp add: push_current_if_has_content_def)

lemma loop_append: "loop it ie mr st (xs @ ys) = loop it ie mr (loop it ie mr st xs) ys"
  by (induction xs arbitrary: st) simp_all

text \<open>
  Every iteration extends the content collected so far (that of the finished sections,
  then that of the current one) by what survives of the block.
\<close>

lemma loop_body_flat:
  "concat (map content (sections (loop_body it ie mr st b)))
     @ content (current (loop_body it ie mr st b)) =
   concat (map content (sections st)) @ content (current st) @ surviving it ie mr b"
  by (cases b) (auto simp: Let_def append_content_def sections_push split: option.splits)

lemma loop_flat:
  "concat (map content (sections (loop it ie mr st bs)))
     @ content (current (loop it ie mr st bs)) =
   concat (map content (sections st)) @ content (current st) @ filtered_blocks it ie mr bs"
proof (induction bs arbitrary: st)
  case Nil
  show ?case by (simp add: filtered_blocks_def)
next
  case (Cons b bs)
  have "concat (map content (sections (loop it ie mr st (b # bs))))
          @ content (current (loop it ie mr st (b # bs)))
      = concat (map content (sections (loop_body it ie mr st b)))
          @ content (current (loop_body it ie mr st b)) @ filtered_blocks it ie mr bs"
    using Cons.IH [of "loop_body it ie mr st b"] by simp
  also have "\<dots> = concat (map content (sections st)) @ content (current st)
          @ surviving it ie mr b @ filtered_blocks it ie mr bs"
    using loop_body_flat [of it ie mr st b] by (metis append.assoc)
  finally show ?case by (simp add: filtered_blocks_def)
qed

text \<open>A block that is not heading-styled only touches the content of the current section.\<close>

lemma loop_body_no_heading:
  "\<not> is_heading b \<Longrightarrow>
   loop_body it ie mr st b =
     st\<lparr>current := (current st)\<lparr>content := content (current st) @ surviving it ie mr b\<rparr>\<rparr>"
  by (cases b) (auto simp: Let_def append_content_def)

lemma loop_no_heading:
  "\<forall>b\<in>set bs. \<not> is_heading b \<Longrightarrow>
   loop it ie mr st bs =
     st\<lparr>current := (current st)\<lparr>content := content (current st) @ filtered_blocks it ie mr bs\<rparr>\<rparr>"
proof (induction bs arbitrary: st)
  case Nil
  show ?case by (simp add: filtered_blocks_def)
next
  case (Cons b bs)
  then show ?case by (simp add: loop_body_no_heading filtered_blocks_def)
qed

text \<open>
  While the current section and every heading met have a level other than 0, so has every
  section the loop appends.
\<close>

lemma loop_body_levels:
  assumes "level (current st) \<noteq> 0" and "block_level b \<noteq> Some 0"
  shows "\<exists>extra. sections (loop_body it ie mr st b) = sections st @ extra \<and>
           (\<forall>s\<in>set extra. level s \<noteq> 0) \<and> level (current (loop_body it ie mr st b)) \<noteq> 0"
proof (cases b)
  case (ParagraphBlock p)
  show ?thesis
  proof (cases "heading_level p")
    case None
    with ParagraphBlock assms show ?thesis
      by (simp add: Let_def append_content_def)
  next
    case (Some lvl)
    with ParagraphBlock assms have "lvl \<noteq> 0" by simp
    from sections_push_cases [of st] show ?thesis
    proof
      assume "sections (push_current_if_has_content st) = sections st"
      with ParagraphBlock Some \<open>lvl \<noteq> 0\<close> show ?thesis by (simp add: Let_def)
    next
      assume "sections (push_current_if_has_content st) = sections st @ [current st]"
      with ParagraphBlock Some \<open>lvl \<noteq> 0\<close> assms(1) show ?thesis by (simp add: Let_def)
    qed
  qed
next
  case (TableBlock t)
  with assms show ?thesis by (simp add: append_content_def)
qed

lemma loop_levels:
  assumes "level (current st) \<noteq> 0" and "\<forall>b\<in>set bs. block_level b \<noteq> Some 0"
  shows "\<exists>extra. sections (loop it ie mr st bs) = sections st @ extra \<and>
           (\<forall>s\<in>set extra. level s \<noteq> 0) \<and> level (current (loop it ie mr st bs)) \<noteq> 0"
  using assms
proof (induction bs arbitrary: st)
  case Nil
  then show ?case by simp
next
  case (Cons b bs)
  from Cons.prems obtain e1 where e1:
    "sections (loop_body it ie mr st b) = sections st @ e1"
    "\<forall>s\<in>set e1. level s \<noteq> 0" "level (current (loop_body it ie mr st b)) \<noteq> 0"
    using loop_body_levels [of st b it ie mr] by auto
  from Cons.IH [OF e1(3)] Cons.prems obtain e2 where e2:
    "sections (loop it ie mr (loop_body it ie mr st b) bs) =
       sections (loop_body it ie mr st b) @ e2"
    "\<forall>s\<in>set e2. level s \<noteq> 0"
    "level (current (loop it ie mr (loop_body it ie mr st b) bs)) \<noteq> 0"
    by auto
  from e1 e2 show ?case by (intro exI [of _ "e1 @ e2"]) auto
qed

text \<open>
  The shape of the output when no heading resolves to level 0: the synthetic section, if
  anything that precedes the first heading survives, and then sections of other levels.
\<close>

lemma parse_shape:
  assumes "\<forall>b\<in>set doc. block_level b \<noteq> Some 0"
  shows "\<exists>extra.
           parse_docx_sections doc it ie mr =
             (if filtered_blocks it ie mr (before_first_heading doc) = [] then []
              else [\<lparr>title = ''(preamble)'', level = 0,
                      content = filtered_blocks it ie mr (before_first_heading doc)\<rparr>]) @ extra
           \<and> (\<forall>s\<in>set extra. level s \<noteq> 0)"
proof -
  let ?pre = "before_first_heading doc"
  let ?rest = "dropWhile (\<lambda>b. \<not> is_heading b) doc"
  let ?fp = "filtered_blocks it ie mr ?pre"
  let ?st0 = "\<lparr>sections = [], current = \<lparr>title = ''(preamble)'', level = 0, content = []\<rparr>\<rparr>"
  let ?st1 = "\<lparr>sections = [], current = \<lparr>title = ''(preamble)'', level = 0, content = ?fp\<rparr>\<rparr>"
  let ?head = "if ?fp = [] then [] else [\<lparr>title = ''(preamble)'', level = 0, content = ?fp\<rparr>]"
  have doc: "doc = ?pre @ ?rest" by (simp add: before_first_heading_def)
  have "\<forall>b\<in>set ?pre. \<not> is_heading b"
    by (auto simp: before_first_heading_def dest: set_takeWhileD)
  then have pre: "loop it ie mr ?st0 ?pre = ?st1"
    by (simp add: loop_no_heading)
  have split: "loop it ie mr ?st0 doc = loop it ie mr ?st1 ?rest"
    using loop_append [of it ie mr ?st0 ?pre ?rest] doc pre by simp
  show ?thesis
  proof (cases ?rest)
    case Nil
    with split have "parse_docx_sections doc it ie mr = ?head"
      by (simp add: parse_docx_sections_def push_current_if_has_content_def)
    then show ?thesis by simp
  next
    case (Cons h more)
    then have "is_heading h"
      using hd_dropWhile [of "\<lambda>b. \<not> is_heading b" doc] by auto
    then obtain p lvl where h: "h = ParagraphBlock p" "heading_level p = Some lvl"
      by (cases h) auto
    have "h \<in> set doc" "set more \<subseteq> set doc"
      using Cons set_dropWhileD [of _ "\<lambda>b. \<not> is_heading b" doc] by auto
    with assms h have "lvl \<noteq> 0" and more: "\<forall>b\<in>set more. block_level b \<noteq> Some 0"
      by auto
    let ?st2 = "loop_body it ie mr ?st1 h"
    have st2: "sections ?st2 = ?head" "level (current ?st2) \<noteq> 0"
      using h \<open>lvl \<noteq> 0\<close> by (simp_all add: Let_def push_current_if_has_content_def)
    from loop_levels [OF st2(2) more, of it ie mr] obtain e where e:
      "sections (loop it ie mr ?st2 more) = ?head @ e" "\<forall>s\<in>set e. level s \<noteq> 0"
      "level (current (loop it ie mr ?st2 more)) \<noteq> 0"
      using st2(1) by auto
    have out: "parse_docx_sections doc it ie mr =
               sections (push_current_if_has_content (loop it ie mr ?st2 more))"
      using split Cons by (simp add: parse_docx_sections_def)
    from sections_push_cases [of "loop it ie mr ?st2 more"] show ?thesis
    proof
      assume "sections (push_current_if_has_content (loop it ie mr ?st2 more)) =
              sections (loop it ie mr ?st2 more)"
      with out e show ?thesis by (intro exI [of _ e]) simp
    next
      assume "sections (push_current_if_has_content (loop it ie mr ?st2 more)) =
              sections (loop it ie mr ?st2 more) @ [current (loop it ie mr ?st2 more)]"
      with out e show ?thesis
        by (intro exI [of _ "e @ [current (loop it ie mr ?st2 more)]"]) simp
    qed
  qed
qed

text \<open>
  The loop only appends to \<^verbatim>\<open>sections\<close>. So when something that precedes the first
  heading survives, the synthetic section is the first of the output.
\<close>

lemma loop_body_extends:
  "\<exists>extra. sections (loop_body it ie mr st b) = sections st @ extra"
proof (cases b)
  case (ParagraphBlock p)
  then show ?thesis
    using sections_push_cases [of st]
    by (cases "heading_level p") (auto simp: Let_def append_content_def)
next
  case (TableBlock t)
  then show ?thesis by (simp add: append_content_def)
qed

lemma loop_extends:
  "\<exists>extra. sections (loop it ie mr st bs) = sections st @ extra"
proof (induction bs arbitrary: st)
  case Nil
  show ?case by simp
next
  case (Cons b bs)
  from loop_body_extends [of it ie mr st b] obtain e1 where
    "sections (loop_body it ie mr st b) = sections st @ e1" ..
  moreover from Cons.IH [of "loop_body it ie mr st b"] obtain e2 where
    "sections (loop it ie mr (loop_body it ie mr st b) bs) =
       sections (loop_body it ie mr st b) @ e2" ..
  ultimately show ?case by simp
qed

lemma parse_begins_with_preamble:
  assumes "filtered_blocks it ie mr (before_first_heading doc) \<noteq> []"
  shows "\<exists>extra. parse_docx_sections doc it ie mr =
           \<lparr>title = ''(preamble)'', level = 0,
             content = filtered_blocks it ie mr (before_first_heading doc)\<rparr> # extra"
proof -
  let ?pre = "before_first_heading doc"
  let ?rest = "dropWhile (\<lambda>b. \<not> is_heading b) doc"
  let ?fp = "filtered_blocks it ie mr ?pre"
  let ?sec = "\<lparr>title = ''(preamble)'', level = 0, content = ?fp\<rparr>"
  let ?st0 = "\<lparr>sections = [], current = \<lparr>title = ''(preamble)'', level = 0, content = []\<rparr>\<rparr>"
  let ?st1 = "\<lparr>sections = [], current = ?sec\<rparr>"
  have doc: "doc = ?pre @ ?rest" by (simp add: before_first_heading_def)
  have "\<forall>b\<in>set ?pre. \<not> is_heading b"
    by (auto simp: before_first_heading_def dest: set_takeWhileD)
  then have pre: "loop it ie mr ?st0 ?pre = ?st1"
    by (simp add: loop_no_heading)
  have split: "loop it ie mr ?st0 doc = loop it ie mr ?st1 ?rest"
    using loop_append [of it ie mr ?st0 ?pre ?rest] doc pre by simp
  show ?thesis
  proof (cases ?rest)
    case Nil
    with split assms show ?thesis
      by (simp add: parse_docx_sections_def push_current_if_has_content_def)
  next
    case (Cons h more)
    then have "is_heading h"
      using hd_dropWhile [of "\<lambda>b. \<not> is_heading b" doc] by auto
    then obtain p lvl where h: "h = ParagraphBlock p" "heading_level p = Some lvl"
      by (cases h) auto
    let ?st2 = "loop_body it ie mr ?st1 h"
    have st2: "sections ?st2 = [?sec]"
      using h assms by (simp add: Let_def push_current_if_has_content_def)
    from loop_extends [of it ie mr ?st2 more] st2 obtain e where
      e: "sections (loop it ie mr ?st2 more) = ?sec # e" by auto
    have out: "parse_docx_sections doc it ie mr =
               sections (push_current_if_has_content (loop it ie mr ?st2 more))"
      using split Cons by (simp add: parse_docx_sections_def)
    from sections_push_cases [of "loop it ie mr ?st2 more"] out e show ?thesis
      by auto
  qed
qed

section \<open>Properties of \<^verbatim>\<open>heading_level\<close>\<close>

lemma heading_level_no_style: "style p = None \<Longrightarrow> heading_level p = None"
  by (simp add: heading_level_def)

lemma heading_level_no_name:
  "style p = Some st \<Longrightarrow> name st = None \<or> name st = Some [] \<Longrightarrow> heading_level p = None"
  by (auto simp: heading_level_def)

lemma heading_level_other_name:
  "style p = Some st \<Longrightarrow> name st = Some nm \<Longrightarrow> \<not> startswith (lower (strip nm)) ''heading '' \<Longrightarrow>
   heading_level p = None"
  by (simp add: heading_level_def Let_def)

lemma heading_level_examples:
  "heading_level \<lparr>text = t, runs = rs, style = Some \<lparr>name = Some ''Heading 3''\<rparr>\<rparr> = Some 3"
  "heading_level \<lparr>text = t, runs = rs, style = Some \<lparr>name = Some ''Heading''\<rparr>\<rparr> = None"
  "heading_level \<lparr>text = t, runs = rs, style = Some \<lparr>name = Some ''heading abc''\<rparr>\<rparr> = None"
  "heading_level \<lparr>text = t, runs = rs, style = Some \<lparr>name = Some ''Normal''\<rparr>\<rparr> = None"
  by code_simp+

section \<open>Properties of the detectors\<close>

lemma scan_pages_eq:
  "scan_pages (t, h) doc = (t + total_text_length doc, h \<or> any_page_has_image doc)"
  by (induction doc arbitrary: t h) (auto simp: total_text_length_def any_page_has_image_def)

lemma ratio_defined:
  "ratio ocr_chars pdf_chars = Inr (real_of_int ocr_chars / real_of_int (max 1 pdf_chars))"
  by (simp add: ratio_def truediv_def max_def)

text \<open>
  The function returns a record for every threshold other than zero, and raises at the
  division of line 54 for the threshold zero.
\<close>

lemma detect_returns:
  "ocr_min_ratio \<noteq> 0 \<Longrightarrow>
   \<exists>res. detect_scanned_table_by_ocr page_no box pdf_text ocr_text ocr_min_ratio min_ocr_chars
          = Inr res"
  by (simp add: detect_scanned_table_by_ocr_def Let_def ratio_defined truediv_def)

lemma detect_raises:
  "detect_scanned_table_by_ocr page_no box pdf_text ocr_text 0 min_ocr_chars
   = Inl ZeroDivisionError"
  by (simp add: detect_scanned_table_by_ocr_def Let_def ratio_defined truediv_def)

lemma detect_result:
  assumes "detect_scanned_table_by_ocr page_no box pdf_text ocr_text ocr_min_ratio min_ocr_chars
           = Inr res"
  shows "res = \<lparr>page_number = page_no, bbox = box,
                 pdf_text_chars = int (length (strip pdf_text)),
                 ocr_text_chars = int (length (strip ocr_text)),
                 scanned = (min_ocr_chars \<le> int (length (strip ocr_text)) \<and>
                   ocr_min_ratio \<le> real_of_int (int (length (strip ocr_text)))
                                     / real_of_int (max 1 (int (length (strip pdf_text))))),
                 confidence = min 1 (real_of_int (int (length (strip ocr_text)))
                                     / real_of_int (max 1 (int (length (strip pdf_text))))
                                     / (ocr_min_ratio * 2))\<rparr>"
  using assms
  by (auto simp: detect_scanned_table_by_ocr_def Let_def ratio_defined truediv_def
           split: if_splits)

section \<open>The claims\<close>

subsection \<open>Segmentation is a partition of the filtered stream\<close>

text \<open>
  C1. For every block stream and every setting of the three options, the content lists of
  the sections that \<^verbatim>\<open>parse_docx_sections\<close> returns, concatenated in output order,
  are exactly the serialised non-heading blocks that survive the filters, in the order of
  the stream: nothing is reordered, duplicated or lost.
\<close>

theorem sections_reconstruct_filtered_blocks:
  "concat (map content
     (parse_docx_sections doc include_tables include_empty_paragraphs merge_paragraph_runs)) =
   filtered_blocks include_tables include_empty_paragraphs merge_paragraph_runs doc"
  unfolding parse_docx_sections_def
  using loop_flat [of include_tables include_empty_paragraphs merge_paragraph_runs
      "\<lparr>sections = [], current = \<lparr>title = ''(preamble)'', level = 0, content = []\<rparr>\<rparr>" doc]
  by (simp add: sections_push)

theorem sections_reconstruct_filtered_blocks_witness:
  "concat (map content
     (parse_docx_sections
        [TableBlock [['' x '']],
         ParagraphBlock \<lparr>text = ''intro'', runs = [''in'', ''tro''], style = None\<rparr>,
         ParagraphBlock \<lparr>text = ''One'', runs = [''One''], style = Some \<lparr>name = Some ''Heading 1''\<rparr>\<rparr>,
         ParagraphBlock \<lparr>text = ''  '', runs = [''  ''], style = None\<rparr>,
         ParagraphBlock \<lparr>text = ''Two'', runs = [''Two''], style = Some \<lparr>name = Some ''Heading 2''\<rparr>\<rparr>,
         ParagraphBlock \<lparr>text = '' body '', runs = ['' body ''], style = Some \<lparr>name = Some ''Normal''\<rparr>\<rparr>]
        False False True)) =
   [paragraph_item ''intro'' None, paragraph_item ''body'' (Some ''Normal'')]"
proof -
  have "filtered_blocks False False True
        [TableBlock [['' x '']],
         ParagraphBlock \<lparr>text = ''intro'', runs = [''in'', ''tro''], style = None\<rparr>,
         ParagraphBlock \<lparr>text = ''One'', runs = [''One''], style = Some \<lparr>name = Some ''Heading 1''\<rparr>\<rparr>,
         ParagraphBlock \<lparr>text = ''  '', runs = [''  ''], style = None\<rparr>,
         ParagraphBlock \<lparr>text = ''Two'', runs = [''Two''], style = Some \<lparr>name = Some ''Heading 2''\<rparr>\<rparr>,
         ParagraphBlock \<lparr>text = '' body '', runs = ['' body ''], style = Some \<lparr>name = Some ''Normal''\<rparr>\<rparr>]
      = [paragraph_item ''intro'' None, paragraph_item ''body'' (Some ''Normal'')]"
    by code_simp
  then show ?thesis
    by (simp only: sections_reconstruct_filtered_blocks)
qed

subsection \<open>When the synthetic first section is emitted\<close>

text \<open>
  C2, as the specification states it: the first section has level 0 and the title
  \<^verbatim>\<open>(preamble)\<close> if and only if a non-heading block precedes the first heading, also
  when the filters drop every such block. The code does otherwise: an empty paragraph
  before the first heading is dropped by the default filter, the synthetic section stays
  empty and \<^verbatim>\<open>push_current_if_has_content\<close> does not append it.
\<close>

theorem preamble_not_emitted_when_filtered_out:
  "before_first_heading
     [ParagraphBlock \<lparr>text = [], runs = [], style = None\<rparr>,
      ParagraphBlock \<lparr>text = ''A'', runs = [''A''], style = Some \<lparr>name = Some ''Heading 1''\<rparr>\<rparr>]
     \<noteq> []
   \<and> parse_docx_sections
       [ParagraphBlock \<lparr>text = [], runs = [], style = None\<rparr>,
        ParagraphBlock \<lparr>text = ''A'', runs = [''A''], style = Some \<lparr>name = Some ''Heading 1''\<rparr>\<rparr>]
       True False True
     = [\<lparr>title = ''A'', level = 1, content = []\<rparr>]
   \<and> \<not> starts_with_preamble
       (parse_docx_sections
          [ParagraphBlock \<lparr>text = [], runs = [], style = None\<rparr>,
           ParagraphBlock \<lparr>text = ''A'', runs = [''A''], style = Some \<lparr>name = Some ''Heading 1''\<rparr>\<rparr>]
          True False True)"
  by code_simp

text \<open>
  C2, amended. For every block stream and every setting of the options: if at least one
  non-heading block that survives the filters precedes the first heading-styled paragraph,
  the first section has level 0 and the title \<^verbatim>\<open>(preamble)\<close>. In a stream where no
  heading resolves to level 0 the converse holds as well, and when no such block survives
  no section of level 0 is emitted.
\<close>

theorem preamble_iff_surviving_block_before_first_heading:
  "(filtered_blocks it ie mr (before_first_heading doc) \<noteq> [] \<longrightarrow>
      starts_with_preamble (parse_docx_sections doc it ie mr))
   \<and> ((\<forall>b\<in>set doc. block_level b \<noteq> Some 0) \<longrightarrow>
        (starts_with_preamble (parse_docx_sections doc it ie mr) \<longrightarrow>
           filtered_blocks it ie mr (before_first_heading doc) \<noteq> [])
        \<and> (filtered_blocks it ie mr (before_first_heading doc) = [] \<longrightarrow>
             (\<forall>s\<in>set (parse_docx_sections doc it ie mr). level s \<noteq> 0)))"
proof -
  have emitted: "starts_with_preamble (parse_docx_sections doc it ie mr)"
    if "filtered_blocks it ie mr (before_first_heading doc) \<noteq> []"
    using parse_begins_with_preamble [OF that] by auto
  have absent: "\<forall>s\<in>set (parse_docx_sections doc it ie mr). level s \<noteq> 0"
    if "\<forall>b\<in>set doc. block_level b \<noteq> Some 0"
      and "filtered_blocks it ie mr (before_first_heading doc) = []"
    using parse_shape [OF that(1), of it ie mr] that(2) by auto
  have only_then: "filtered_blocks it ie mr (before_first_heading doc) \<noteq> []"
    if "\<forall>b\<in>set doc. block_level b \<noteq> Some 0"
      and "starts_with_preamble (parse_docx_sections doc it ie mr)"
  proof (rule ccontr)
    assume "\<not> filtered_blocks it ie mr (before_first_heading doc) \<noteq> []"
    then have "\<forall>s\<in>set (parse_docx_sections doc it ie mr). level s \<noteq> 0"
      using absent [OF that(1)] by simp
    with that(2) show False
      by (cases "parse_docx_sections doc it ie mr") auto
  qed
  from emitted absent only_then show ?thesis by blast
qed

theorem preamble_iff_surviving_block_before_first_heading_witness:
  "starts_with_preamble
     (parse_docx_sections
        [ParagraphBlock \<lparr>text = ''intro'', runs = [''intro''], style = None\<rparr>,
         ParagraphBlock \<lparr>text = ''One'', runs = [''One''], style = Some \<lparr>name = Some ''Heading 1''\<rparr>\<rparr>]
        True False True)
   \<and> \<not> starts_with_preamble
     (parse_docx_sections
        [TableBlock [[''x'']],
         ParagraphBlock \<lparr>text = ''One'', runs = [''One''], style = Some \<lparr>name = Some ''Heading 1''\<rparr>\<rparr>]
        False False True)
   \<and> 0 \<notin> level ` set
     (parse_docx_sections
        [TableBlock [[''x'']],
         ParagraphBlock \<lparr>text = ''One'', runs = [''One''], style = Some \<lparr>name = Some ''Heading 1''\<rparr>\<rparr>]
        False False True)"
proof -
  let ?d1 = "[ParagraphBlock \<lparr>text = ''intro'', runs = [''intro''], style = None\<rparr>,
         ParagraphBlock \<lparr>text = ''One'', runs = [''One''], style = Some \<lparr>name = Some ''Heading 1''\<rparr>\<rparr>]"
  let ?d2 = "[TableBlock [[''x'']],
         ParagraphBlock \<lparr>text = ''One'', runs = [''One''], style = Some \<lparr>name = Some ''Heading 1''\<rparr>\<rparr>]"
  have h2: "\<forall>b\<in>set ?d2. block_level b \<noteq> Some 0" by code_simp
  have f1: "filtered_blocks True False True (before_first_heading ?d1) \<noteq> []" by code_simp
  have f2: "filtered_blocks False False True (before_first_heading ?d2) = []" by code_simp
  from preamble_iff_surviving_block_before_first_heading [of True False True ?d1] f1
  have a: "starts_with_preamble (parse_docx_sections ?d1 True False True)" by simp
  from preamble_iff_surviving_block_before_first_heading [of False False True ?d2] h2 f2
  have b: "\<not> starts_with_preamble (parse_docx_sections ?d2 False False True)"
    and c: "\<forall>s\<in>set (parse_docx_sections ?d2 False False True). level s \<noteq> 0" by simp_all
  from c have "0 \<notin> level ` set (parse_docx_sections ?d2 False False True)" by auto
  with a b show ?thesis by simp
qed

subsection \<open>Levels of the sections\<close>

text \<open>
  C3. The claim is that every returned section has a level of at least 0, whatever the
  style names. \<^verbatim>\<open>heading_level\<close> hands the text after the prefix to \<^verbatim>\<open>int\<close>,
  which accepts a sign, so the style name \<^verbatim>\<open>Heading -1\<close> resolves to the level
  \<open>-1\<close> and the section it starts is returned with that level.
\<close>

theorem heading_minus_one_gives_negative_level:
  "heading_level
     \<lparr>text = ''Appendix'', runs = [''Appendix''], style = Some \<lparr>name = Some ''Heading -1''\<rparr>\<rparr>
     = Some (- 1)
   \<and> parse_docx_sections
       [ParagraphBlock
          \<lparr>text = ''Appendix'', runs = [''Appendix''],
           style = Some \<lparr>name = Some ''Heading -1''\<rparr>\<rparr>]
       True False True
     = [\<lparr>title = ''Appendix'', level = - 1, content = []\<rparr>]"
  by code_simp

theorem heading_minus_one_gives_negative_level_witness:
  "list_ex (\<lambda>s. level s < 0)
     (parse_docx_sections
        [ParagraphBlock
           \<lparr>text = ''Appendix'', runs = [''Appendix''],
            style = Some \<lparr>name = Some ''Heading -1''\<rparr>\<rparr>]
        True False True)"
  using heading_minus_one_gives_negative_level by simp

subsection \<open>Heading resolution\<close>

text \<open>
  C4. The claim is that a style name made of the heading prefix and a suffix that is not
  an integer resolves to no level. \<^verbatim>\<open>heading_level\<close> does not parse the suffix but
  the second piece of \<^verbatim>\<open>name.split("heading ")\<close>, which ends at the next occurrence of
  the prefix: the name \<^verbatim>\<open>Heading 1 heading x\<close> has the suffix \<^verbatim>\<open>1 heading x\<close>, which
  \<^verbatim>\<open>int\<close> rejects, and resolves to level 1, so the paragraph starts a section.
\<close>

theorem heading_level_reads_up_to_second_prefix:
  "startswith (lower (strip ''Heading 1 heading x'')) ''heading ''
   \<and> py_int (drop (length ''heading '') (lower (strip ''Heading 1 heading x''))) = None
   \<and> heading_level
       \<lparr>text = ''Part'', runs = [''Part''], style = Some \<lparr>name = Some ''Heading 1 heading x''\<rparr>\<rparr>
     = Some 1
   \<and> parse_docx_sections
       [ParagraphBlock
          \<lparr>text = ''Part'', runs = [''Part''],
           style = Some \<lparr>name = Some ''Heading 1 heading x''\<rparr>\<rparr>]
       True False True
     = [\<lparr>title = ''Part'', level = 1, content = []\<rparr>]"
  by code_simp

theorem heading_level_reads_up_to_second_prefix_witness:
  "length
     (parse_docx_sections
        [ParagraphBlock
           \<lparr>text = ''Part'', runs = [''Part''],
            style = Some \<lparr>name = Some ''Heading 1 heading x''\<rparr>\<rparr>]
        True False True) = 1"
  using heading_level_reads_up_to_second_prefix by simp

subsection \<open>Streams without headings\<close>

text \<open>
  C5. For every block stream with no heading-styled paragraph, \<^verbatim>\<open>parse_docx_sections\<close>
  returns exactly one section, titled \<^verbatim>\<open>(preamble)\<close> and of level 0, that holds all the
  blocks that survive the filters, or the empty list when no block survives.
\<close>

theorem no_heading_single_preamble:
  assumes "\<forall>b\<in>set doc. \<not> is_heading b"
  shows "parse_docx_sections doc it ie mr =
           (if filtered_blocks it ie mr doc = [] then []
            else [\<lparr>title = ''(preamble)'', level = 0, content = filtered_blocks it ie mr doc\<rparr>])"
  unfolding parse_docx_sections_def
  by (simp add: loop_no_heading [OF assms] push_current_if_has_content_def)

theorem no_heading_single_preamble_witness:
  "parse_docx_sections
     [ParagraphBlock \<lparr>text = '' a '', runs = ['' a ''], style = Some \<lparr>name = Some ''Normal''\<rparr>\<rparr>,
      TableBlock [[''x'', '' y'']]]
     True False True
   = [\<lparr>title = ''(preamble)'', level = 0,
       content = [paragraph_item ''a'' (Some ''Normal''), table_item [[''x'', ''y'']]]\<rparr>]
   \<and> parse_docx_sections
     [ParagraphBlock \<lparr>text = ''  '', runs = [''  ''], style = None\<rparr>, TableBlock [[''x'']]]
     False False True
   = []"
proof -
  let ?d1 = "[ParagraphBlock \<lparr>text = '' a '', runs = ['' a ''], style = Some \<lparr>name = Some ''Normal''\<rparr>\<rparr>,
      TableBlock [[''x'', '' y'']]]"
  let ?d2 = "[ParagraphBlock \<lparr>text = ''  '', runs = [''  ''], style = None\<rparr>, TableBlock [[''x'']]]"
  have h1: "\<forall>b\<in>set ?d1. \<not> is_heading b" by code_simp
  have h2: "\<forall>b\<in>set ?d2. \<not> is_heading b" by code_simp
  have f1: "filtered_blocks True False True ?d1 =
            [paragraph_item ''a'' (Some ''Normal''), table_item [[''x'', ''y'']]]" by code_simp
  have f2: "filtered_blocks False False True ?d2 = []" by code_simp
  from no_heading_single_preamble [OF h1, of True False True]
       no_heading_single_preamble [OF h2, of False False True] f1 f2
  show ?thesis by simp
qed

subsection \<open>The scenario of the specification\<close>

text \<open>
  C6. On the stream of the paragraph \<^verbatim>\<open>Hello\<close> without style, the paragraph
  \<^verbatim>\<open>Title A\<close> of style \<^verbatim>\<open>Heading 1\<close>, the paragraph \<^verbatim>\<open>body\<close> without style and the
  table with the one row \<^verbatim>\<open>a, b\<close>, with the default options, the result is the
  synthetic section holding \<^verbatim>\<open>Hello\<close> and the section \<^verbatim>\<open>Title A\<close> of level 1 holding
  \<^verbatim>\<open>body\<close> and the table. With the default options the runs are not read.
\<close>

theorem scenario_hello_title_a:
  "parse_docx_sections
     [ParagraphBlock \<lparr>text = ''Hello'', runs = r1, style = None\<rparr>,
      ParagraphBlock \<lparr>text = ''Title A'', runs = r2, style = Some \<lparr>name = Some ''Heading 1''\<rparr>\<rparr>,
      ParagraphBlock \<lparr>text = ''body'', runs = r3, style = None\<rparr>,
      TableBlock [[''a'', ''b'']]]
     True False True =
   [\<lparr>title = ''(preamble)'', level = 0, content = [paragraph_item ''Hello'' None]\<rparr>,
    \<lparr>title = ''Title A'', level = 1,
      content = [paragraph_item ''body'' None, table_item [[''a'', ''b'']]]\<rparr>]"
  by code_simp

theorem scenario_hello_title_a_witness:
  "map title
     (parse_docx_sections
        [ParagraphBlock \<lparr>text = ''Hello'', runs = [''Hello''], style = None\<rparr>,
         ParagraphBlock \<lparr>text = ''Title A'', runs = [''Title A''],
           style = Some \<lparr>name = Some ''Heading 1''\<rparr>\<rparr>,
         ParagraphBlock \<lparr>text = ''body'', runs = [''body''], style = None\<rparr>,
         TableBlock [[''a'', ''b'']]]
        True False True) =
   [''(preamble)'', ''Title A'']"
  using scenario_hello_title_a [of "[''Hello'']" "[''Title A'']" "[''body'']"] by simp

subsection \<open>The scanned-table detector\<close>

text \<open>
  C7. For every input of \<^verbatim>\<open>detect_scanned_table_by_ocr\<close> and every record it returns:
  if \<^verbatim>\<open>ocr_chars < min_ocr_chars\<close> then \<^verbatim>\<open>scanned\<close> is false, whatever the ratio; if
  \<^verbatim>\<open>ocr_chars \<ge> min_ocr_chars\<close> and the ratio is at least \<^verbatim>\<open>ocr_min_ratio\<close> then
  \<^verbatim>\<open>scanned\<close> is true; the confidence is \<^verbatim>\<open>min(1.0, ratio / (ocr_min_ratio * 2))\<close> and
  never exceeds 1. The ratio is that of line 51, \<^verbatim>\<open>ocr_chars / max(1, pdf_chars)\<close>. A record
  is returned for every threshold \<^verbatim>\<open>ocr_min_ratio\<close> other than zero.
\<close>

theorem detect_scanned_table_verdict:
  "(ocr_min_ratio \<noteq> 0 \<longrightarrow>
      (\<exists>res. detect_scanned_table_by_ocr page_no box pdf_text ocr_text ocr_min_ratio min_ocr_chars
             = Inr res))
   \<and> (\<forall>res.
        detect_scanned_table_by_ocr page_no box pdf_text ocr_text ocr_min_ratio min_ocr_chars
          = Inr res \<longrightarrow>
          (int (length (strip ocr_text)) < min_ocr_chars \<longrightarrow> \<not> scanned res)
        \<and> (min_ocr_chars \<le> int (length (strip ocr_text))
             \<and> ocr_min_ratio \<le> real_of_int (int (length (strip ocr_text)))
                                / real_of_int (max 1 (int (length (strip pdf_text))))
             \<longrightarrow> scanned res)
        \<and> confidence res =
            min 1 (real_of_int (int (length (strip ocr_text)))
                     / real_of_int (max 1 (int (length (strip pdf_text))))
                     / (ocr_min_ratio * 2))
        \<and> confidence res \<le> 1)"
proof -
  have returns: "ocr_min_ratio \<noteq> 0 \<longrightarrow>
      (\<exists>res. detect_scanned_table_by_ocr page_no box pdf_text ocr_text ocr_min_ratio min_ocr_chars
             = Inr res)"
    by (simp add: detect_returns)
  have result:
    "(int (length (strip ocr_text)) < min_ocr_chars \<longrightarrow> \<not> scanned res)
     \<and> (min_ocr_chars \<le> int (length (strip ocr_text))
          \<and> ocr_min_ratio \<le> real_of_int (int (length (strip ocr_text)))
                             / real_of_int (max 1 (int (length (strip pdf_text))))
          \<longrightarrow> scanned res)
     \<and> confidence res =
         min 1 (real_of_int (int (length (strip ocr_text)))
                  / real_of_int (max 1 (int (length (strip pdf_text))))
                  / (ocr_min_ratio * 2))
     \<and> confidence res \<le> 1"
    if "detect_scanned_table_by_ocr page_no box pdf_text ocr_text ocr_min_ratio min_ocr_chars
        = Inr res" for res
  proof -
    note r = detect_result [OF that]
    have 1: "int (length (strip ocr_text)) < min_ocr_chars \<longrightarrow> \<not> scanned res"
      by (subst r) simp
    have 2: "min_ocr_chars \<le> int (length (strip ocr_text))
          \<and> ocr_min_ratio \<le> real_of_int (int (length (strip ocr_text)))
                             / real_of_int (max 1 (int (length (strip pdf_text))))
          \<longrightarrow> scanned res"
      by (subst r) simp
    have 3: "confidence res =
         min 1 (real_of_int (int (length (strip ocr_text)))
                  / real_of_int (max 1 (int (length (strip pdf_text))))
                  / (ocr_min_ratio * 2))"
      by (subst r) simp
    have 4: "confidence res \<le> 1"
      by (subst 3) simp
    from 1 2 3 4 show ?thesis by blast
  qed
  from returns result show ?thesis by blast
qed

theorem detect_scanned_table_verdict_witness:
  "(\<exists>res. detect_scanned_table_by_ocr 0 (0, 0, 10, 10) '' '' ''abcd'' 2 3 = Inr res
          \<and> scanned res \<and> confidence res \<le> 1)
   \<and> (\<exists>res. detect_scanned_table_by_ocr 0 (0, 0, 10, 10) '' '' ''abcd'' 2 5 = Inr res
          \<and> \<not> scanned res \<and> confidence res \<le> 1)"
proof -
  have o: "strip ''abcd'' = ''abcd''" and p: "strip '' '' = []" by code_simp+
  from detect_scanned_table_verdict [of 2 0 "(0, 0, 10, 10)" "'' ''" "''abcd''" 3]
  have a: "\<exists>res. detect_scanned_table_by_ocr 0 (0, 0, 10, 10) '' '' ''abcd'' 2 3 = Inr res
          \<and> scanned res \<and> confidence res \<le> 1"
    by (simp add: o p) blast
  from detect_scanned_table_verdict [of 2 0 "(0, 0, 10, 10)" "'' ''" "''abcd''" 5]
  have b: "\<exists>res. detect_scanned_table_by_ocr 0 (0, 0, 10, 10) '' '' ''abcd'' 2 5 = Inr res
          \<and> \<not> scanned res \<and> confidence res \<le> 1"
    by (simp add: o p) blast
  from a b show ?thesis by simp
qed

subsection \<open>The scanned-PDF detector\<close>

text \<open>
  C8. For every input of \<^verbatim>\<open>is_pdf_scanned\<close>: if the total length of the stripped page
  texts is at least \<^verbatim>\<open>min_text_chars\<close> the result is false, whatever images there are;
  if the total is below \<^verbatim>\<open>min_text_chars\<close> and \<^verbatim>\<open>require_images\<close> is true, the result
  is whether some page of the document has at least one image.
\<close>

theorem is_pdf_scanned_verdict:
  "(min_text_chars \<le> total_text_length doc \<longrightarrow>
      is_pdf_scanned doc min_text_chars require_images = False)
   \<and> (total_text_length doc < min_text_chars \<and> require_images \<longrightarrow>
      is_pdf_scanned doc min_text_chars require_images = any_page_has_image doc)"
  by (simp add: is_pdf_scanned_def scan_pages_eq)

theorem is_pdf_scanned_verdict_witness:
  "is_pdf_scanned
     [\<lparr>get_text = ''An extracted line of text.'', get_images = [1::nat]\<rparr>] 20 True = False
   \<and> is_pdf_scanned
     [\<lparr>get_text = '' '', get_images = []\<rparr>, \<lparr>get_text = [], get_images = [7::nat]\<rparr>] 20 True
     = True"
proof -
  let ?d1 = "[\<lparr>get_text = ''An extracted line of text.'', get_images = [1::nat]\<rparr>]"
  let ?d2 = "[\<lparr>get_text = '' '', get_images = []\<rparr>, \<lparr>get_text = [], get_images = [7::nat]\<rparr>]"
  have s1: "strip ''An extracted line of text.'' = ''An extracted line of text.''"
    and s2: "strip '' '' = []" and s3: "strip [] = []"
    by code_simp+
  have a: "20 \<le> total_text_length ?d1"
    by (simp add: total_text_length_def s1)
  have b: "total_text_length ?d2 < 20"
    by (simp add: total_text_length_def s2 s3)
  have c: "any_page_has_image ?d2"
    by (simp add: any_page_has_image_def)
  from a b c is_pdf_scanned_verdict [of 20 ?d1 True] is_pdf_scanned_verdict [of 20 ?d2 True]
  show ?thesis by simp
qed

subsection \<open>The command line\<close>

text \<open>
  C9. Run without a path argument, the entry point prints the usage line and exits with
  status 2. Run with a path argument (of a document that opens), it prints the serialised
  list of sections of that document, parsed with the default options. It reads no other
  argument: what follows the path changes nothing. It raises \<^verbatim>\<open>SystemExit\<close> with no
  code other than 2.
\<close>

theorem main_usage_and_output:
  "(length argv < 2 \<longrightarrow>
      main Document json_dumps argv =
        \<lparr>stdout = [''Usage: python docx_sections.py <file.docx>''], ending = SystemExit 2\<rparr>)
   \<and> (\<forall>doc. 2 \<le> length argv \<and> Document (argv ! 1) = Inr doc \<longrightarrow>
        main Document json_dumps argv =
          \<lparr>stdout = [json_dumps (parse_docx_sections doc True False True)],
           ending = Returned\<rparr>)
   \<and> (\<forall>code. ending (main Document json_dumps argv) = SystemExit code \<longrightarrow> code = 2)
   \<and> (2 \<le> length argv \<longrightarrow>
        main Document json_dumps argv = main Document json_dumps (take 2 argv))"
  by (auto simp: main_def split: sum.splits)

theorem main_usage_and_output_witness:
  "main (\<lambda>path. Inr [] :: unit + block list) (\<lambda>secs. ''[]'') [''docx_sections.py'']
   = \<lparr>stdout = [''Usage: python docx_sections.py <file.docx>''], ending = SystemExit 2\<rparr>
   \<and> main (\<lambda>path. Inr [] :: unit + block list) (\<lambda>secs. ''[]'')
     [''docx_sections.py'', ''a.docx'', ''--verbose'']
   = \<lparr>stdout = [''[]''], ending = Returned\<rparr>"
proof -
  note usage =
    main_usage_and_output
      [of "[''docx_sections.py'']" "\<lambda>path. Inr [] :: unit + block list" "\<lambda>secs. ''[]''",
       THEN conjunct1]
  note printed =
    main_usage_and_output
      [of "[''docx_sections.py'', ''a.docx'', ''--verbose'']"
          "\<lambda>path. Inr [] :: unit + block list" "\<lambda>secs. ''[]''",
       THEN conjunct2, THEN conjunct1, THEN spec, of "[]"]
  have a: "main (\<lambda>path. Inr [] :: unit + block list) (\<lambda>secs. ''[]'') [''docx_sections.py'']
           = \<lparr>stdout = [''Usage: python docx_sections.py <file.docx>''], ending = SystemExit 2\<rparr>"
    using usage by simp
  have b: "main (\<lambda>path. Inr [] :: unit + block list) (\<lambda>secs. ''[]'')
             [''docx_sections.py'', ''a.docx'', ''--verbose'']
           = \<lparr>stdout = [''[]''], ending = Returned\<rparr>"
    using printed by simp
  from a b show ?thesis by (rule conjI)
qed

subsection \<open>The division of the decision step\<close>

text \<open>
  C10. Line 51 computes the ratio as \<^verbatim>\<open>ocr_chars\<close> divided by \<^verbatim>\<open>max(1, pdf_chars)\<close>. The
  divisor is at least 1, so for every input the division is defined and does not raise; in
  particular when the region has no extractable text the ratio is \<^verbatim>\<open>ocr_chars\<close> itself,
  and the verdict \<^verbatim>\<open>scanned\<close> of the record returned (one is returned for every
  threshold other than zero) is decided on it.
\<close>

theorem ratio_never_divides_by_zero:
  "ratio ocr_chars pdf_chars = Inr (real_of_int ocr_chars / real_of_int (max 1 pdf_chars))
   \<and> 1 \<le> max 1 pdf_chars
   \<and> ratio ocr_chars 0 = Inr (real_of_int ocr_chars)
   \<and> (strip pdf_text = [] \<and> ocr_min_ratio \<noteq> 0 \<longrightarrow>
        (\<exists>res. detect_scanned_table_by_ocr page_no box pdf_text ocr_text ocr_min_ratio
                 min_ocr_chars = Inr res
               \<and> pdf_text_chars res = 0
               \<and> scanned res =
                   (min_ocr_chars \<le> int (length (strip ocr_text)) \<and>
                    ocr_min_ratio \<le> real_of_int (int (length (strip ocr_text))))))"
proof -
  have a: "ratio ocr_chars pdf_chars =
           Inr (real_of_int ocr_chars / real_of_int (max 1 pdf_chars))"
    by (rule ratio_defined)
  have b: "1 \<le> max 1 pdf_chars" by simp
  have c: "ratio ocr_chars 0 = Inr (real_of_int ocr_chars)"
    by (simp add: ratio_defined)
  have d: "\<exists>res. detect_scanned_table_by_ocr page_no box pdf_text ocr_text ocr_min_ratio
                 min_ocr_chars = Inr res
               \<and> pdf_text_chars res = 0
               \<and> scanned res =
                   (min_ocr_chars \<le> int (length (strip ocr_text)) \<and>
                    ocr_min_ratio \<le> real_of_int (int (length (strip ocr_text))))"
    if "strip pdf_text = []" and "ocr_min_ratio \<noteq> 0"
  proof -
    from detect_returns [OF that(2), of page_no box pdf_text ocr_text min_ocr_chars]
    obtain res where res:
      "detect_scanned_table_by_ocr page_no box pdf_text ocr_text ocr_min_ratio min_ocr_chars
       = Inr res" ..
    note r = detect_result [OF res]
    have "pdf_text_chars res = 0" by (subst r) (simp add: that(1))
    moreover have "scanned res =
                   (min_ocr_chars \<le> int (length (strip ocr_text)) \<and>
                    ocr_min_ratio \<le> real_of_int (int (length (strip ocr_text))))"
      by (subst r) (simp add: that(1))
    ultimately show ?thesis using res by blast
  qed
  from a b c d show ?thesis by blast
qed

theorem ratio_never_divides_by_zero_witness:
  "ratio 4 0 = Inr 4
   \<and> (\<exists>res. detect_scanned_table_by_ocr 0 (0, 0, 10, 10) [] ''abcd'' 2 3 = Inr res
            \<and> pdf_text_chars res = 0 \<and> scanned res)"
proof -
  have o: "strip ''abcd'' = ''abcd''" and p: "strip [] = []" by code_simp+
  from ratio_never_divides_by_zero [of 4 0 "[]" 2 0 "(0, 0, 10, 10)" "''abcd''" 3]
  show ?thesis by (simp add: o p)
qed

end
